theory Spec2Isabelle
  imports Complex_Main "HOL-Library.Log_Nat"
begin

section \<open>Python values used by app.py\<close>

text \<open>
  The exceptions the modelled statements of \<^verbatim>\<open>app.py\<close> can raise: a missing dictionary key
  or data-frame column, a true division whose result does not fit a float, a division by zero,
  a boolean frame that cannot be aligned with the frame it indexes, and any exception raised
  inside the spreadsheet writer (pandas with openpyxl), which is not part of the repository.
\<close>

datatype py_error = KeyError | OverflowError | ZeroDivisionError | ValueError | WriterError

subsection \<open>True division of integers and \<^verbatim>\<open>math.ceil\<close>\<close>

text \<open>
  \<^verbatim>\<open>duration_sec / SEGMENT_LENGTH\<close> is Python's true division of two integers: the result is the
  binary64 float nearest to the exact quotient (ties to even). A finite float is kept as a pair
  \<open>(m, e)\<close> that stands for \<open>m * 2 ^ e\<close>, with \<open>\<bar>m\<bar> \<le> 2 ^ 53\<close> and \<open>- 1074 \<le> e\<close>.
\<close>

type_synonym pyfloat = "int \<times> int"

text \<open>The integer nearest to \<open>n / d\<close> for \<open>0 < d\<close>, a tie going to the even neighbour.\<close>

definition round_half_even :: "int \<Rightarrow> int \<Rightarrow> int" where
  "round_half_even n d =
     (let q = n div d; r = n mod d
      in if 2 * r < d then q
         else if d < 2 * r then q + 1
         else if even q then q else q + 1)"

text \<open>\<open>\<lfloor>log\<^sub>2 (a / b)\<rfloor>\<close> for positive \<open>a\<close> and \<open>b\<close>, from the bit lengths of both.\<close>

definition floor_log2 :: "int \<Rightarrow> int \<Rightarrow> int" where
  "floor_log2 a b =
     (let l = bitlen a - bitlen b
      in if b * 2 ^ nat l \<le> a * 2 ^ nat (- l) then l else l - 1)"

text \<open>
  The float nearest to \<open>a / b\<close> for positive \<open>a\<close> and \<open>b\<close>: 53 significant bits, the exponent
  not below that of the subnormal numbers; a result of \<open>2 ^ 1024\<close> or more is Python's
  \<^verbatim>\<open>OverflowError: integer division result too large for a float\<close>.
\<close>

definition nearest_double :: "int \<Rightarrow> int \<Rightarrow> py_error + pyfloat" where
  "nearest_double a b =
     (let e = max (floor_log2 a b - 52) (- 1074);
          m = round_half_even (a * 2 ^ nat (- e)) (b * 2 ^ nat e)
      in if 0 \<le> e \<and> 2 ^ 1024 \<le> m * 2 ^ nat e then Inl OverflowError else Inr (m, e))"

definition py_true_div :: "int \<Rightarrow> int \<Rightarrow> py_error + pyfloat" where
  "py_true_div a b =
     (if b = 0 then Inl ZeroDivisionError
      else if a = 0 then Inr (0, 0)
      else case nearest_double \<bar>a\<bar> \<bar>b\<bar> of
             Inl err \<Rightarrow> Inl err
           | Inr (m, e) \<Rightarrow> Inr (sgn a * sgn b * m, e))"

text \<open>\<^verbatim>\<open>math.ceil\<close> of a finite float: the least integer not below \<open>m * 2 ^ e\<close>.\<close>

definition math_ceil :: "pyfloat \<Rightarrow> int" where
  "math_ceil x = (case x of (m, e) \<Rightarrow>
     if 0 \<le> e then m * 2 ^ nat e else - ((- m) div 2 ^ nat (- e)))"

subsection \<open>Formatting\<close>

text \<open>\<^verbatim>\<open>str\<close> of a non-negative integer: its decimal digits.\<close>

function str_int :: "int \<Rightarrow> string" where
  "str_int n = (if n < 10 then [char_of (48 + n)]
                else str_int (n div 10) @ [char_of (48 + n mod 10)])"
  by pat_completeness auto
termination
  by (relation "measure nat") auto

declare str_int.simps [simp del]

definition zfill :: "nat \<Rightarrow> string \<Rightarrow> string" where
  "zfill w s = replicate (w - length s) (CHR ''0'') @ s"

text \<open>
  The format specification \<^verbatim>\<open>:02\<close> of an f-string on an integer: width 2, padded with zeros
  after the sign.
\<close>

definition format_02 :: "int \<Rightarrow> string" where
  "format_02 n = (if n < 0 then CHR ''-'' # zfill 1 (str_int (- n))
                  else zfill 2 (str_int n))"

text \<open>
  \<^verbatim>\<open>f"{s // 3600:02}:{(s % 3600) // 60:02}:{s % 60:02}"\<close>. Python's \<^verbatim>\<open>//\<close> and \<^verbatim>\<open>%\<close> with a
  positive divisor are \<open>div\<close> and \<open>mod\<close> on \<open>int\<close>.
\<close>

definition hms :: "int \<Rightarrow> string" where
  "hms s = format_02 (s div 3600) @ '':'' @ format_02 ((s mod 3600) div 60) @ '':''
           @ format_02 (s mod 60)"

section \<open>Constants of app.py\<close>

text \<open>
  Python strings are compared for equality only, so a string is kept as its UTF-8 bytes.
  \<open>PENDING\<close> is the literal of lines 107 and 154, the first entry of \<open>EMOTIONS\<close>.
\<close>

definition PENDING :: string where
  "PENDING = [CHR 0xE5, CHR 0xB0, CHR 0x9A, CHR 0xE6, CHR 0x9C, CHR 0xAA, CHR 0xE6, CHR 0xA8,
              CHR 0x99, CHR 0xE8, CHR 0xA8, CHR 0x98] @ '' (Pending)''"

definition EMOTIONS :: "string list" where
  "EMOTIONS =
    [ [CHR 0xE5, CHR 0xB0, CHR 0x9A, CHR 0xE6, CHR 0x9C, CHR 0xAA, CHR 0xE6, CHR 0xA8,
       CHR 0x99, CHR 0xE8, CHR 0xA8, CHR 0x98] @ '' (Pending)'',
      ''Intense Conflict ('' @ [CHR 0xE6, CHR 0xA5, CHR 0xB5, CHR 0xE5, CHR 0xBA, CHR 0xA6,
       CHR 0xE6, CHR 0x86, CHR 0xA4, CHR 0xE6, CHR 0x80, CHR 0x92, CHR 0xE8, CHR 0x88, CHR 0x87,
       CHR 0xE5, CHR 0x8E, CHR 0xAD, CHR 0xE6, CHR 0x83, CHR 0xA1] @ '')'',
      ''Excited Joy ('' @ [CHR 0xE4, CHR 0xBB, CHR 0xA5, CHR 0xE5, CHR 0xBF, CHR 0xAB, CHR 0xE6,
       CHR 0xA8, CHR 0x82, CHR 0xE5, CHR 0x92, CHR 0x8C, CHR 0xE9, CHR 0xA9, CHR 0x9A, CHR 0xE8,
       CHR 0xA8, CHR 0x9D, CHR 0xE7, CHR 0x82, CHR 0xBA, CHR 0xE4, CHR 0xB8, CHR 0xBB] @ '')'',
      ''Emotional Breakdown ('' @ [CHR 0xE6, CHR 0x82, CHR 0xB2, CHR 0xE5, CHR 0x82, CHR 0xB7,
       CHR 0xE5, CHR 0x92, CHR 0x8C, CHR 0xE6, CHR 0x81, CHR 0x90, CHR 0xE6, CHR 0x87, CHR 0xBC,
       CHR 0xE4, CHR 0xBC, CHR 0xB4, CHR 0xE9, CHR 0x9A, CHR 0xA8, CHR 0xE7, CHR 0x97, CHR 0x9B,
       CHR 0xE8, CHR 0x8B, CHR 0xA6, CHR 0xE8, CHR 0xB7, CHR 0xA1, CHR 0xE8, CHR 0xB1, CHR 0xA1]
       @ '')'',
      ''Calm Communication ('' @ [CHR 0xE6, CHR 0x8C, CHR 0x81, CHR 0xE7, CHR 0xBA, CHR 0x8C,
       CHR 0xE7, CHR 0x9A, CHR 0x84, CHR 0xE5, CHR 0xB9, CHR 0xB3, CHR 0xE9, CHR 0x9D, CHR 0x9C,
       CHR 0xE7, CHR 0x8B, CHR 0x80, CHR 0xE6, CHR 0x85, CHR 0x8B] @ '')'',
      ''Not Present ('' @ [CHR 0xE8, CHR 0xA7, CHR 0x92, CHR 0xE8, CHR 0x89, CHR 0xB2, CHR 0xE6,
       CHR 0x9C, CHR 0xAA, CHR 0xE5, CHR 0x87, CHR 0xBA, CHR 0xE7, CHR 0x8F, CHR 0xBE] @ '')'' ]"

definition SEGMENT_LENGTH :: int where
  "SEGMENT_LENGTH = 15"

section \<open>The segmenter: \<^verbatim>\<open>generate_time_segments\<close>\<close>

text \<open>One entry of the list that \<^verbatim>\<open>generate_time_segments\<close> returns (lines 47 to 51).\<close>

record segment =
  Start_Time :: string
  End_Time :: string
  seconds_start :: int

text \<open>\<^verbatim>\<open>range(n)\<close>: empty for \<open>n \<le> 0\<close>.\<close>

definition py_range :: "int \<Rightarrow> int list" where
  "py_range n = map int [0..<nat n]"

text \<open>The locals \<^verbatim>\<open>start\<close> and \<^verbatim>\<open>end\<close> of iteration \<open>i\<close> (lines 40 and 41).\<close>

definition seg_start :: "int \<Rightarrow> int" where
  "seg_start i = i * SEGMENT_LENGTH"

definition seg_end :: "int \<Rightarrow> int \<Rightarrow> int" where
  "seg_end D i = min ((i + 1) * SEGMENT_LENGTH) D"

text \<open>The body of the loop: the dictionary appended in iteration \<open>i\<close>.\<close>

definition segment_at :: "int \<Rightarrow> int \<Rightarrow> segment" where
  "segment_at D i =
     \<lparr>Start_Time = hms (seg_start i), End_Time = hms (seg_end D i),
      seconds_start = seg_start i\<rparr>"

text \<open>Line 37: \<^verbatim>\<open>total_segments = math.ceil(duration_sec / SEGMENT_LENGTH)\<close>.\<close>

definition total_segments :: "int \<Rightarrow> py_error + int" where
  "total_segments D =
     (case py_true_div D SEGMENT_LENGTH of
        Inl err \<Rightarrow> Inl err
      | Inr x \<Rightarrow> Inr (math_ceil x))"

definition generate_time_segments :: "int \<Rightarrow> py_error + segment list" where
  "generate_time_segments D =
     (case total_segments D of
        Inl err \<Rightarrow> Inl err
      | Inr n \<Rightarrow> Inr (map (segment_at D) (py_range n)))"

section \<open>Data frames\<close>

text \<open>
  A cell of an object column: a string or a missing value. A frame has its column names, in
  order, and its rows, each a list of cells in column order. A row that is too short reads as
  missing values.
\<close>

datatype cell = Str string | NaN

record dataframe =
  columns :: "string list"
  rows :: "cell list list"

type_synonym pydict = "(string \<times> cell) list"

text \<open>
  \<^verbatim>\<open>pd.DataFrame(data)\<close> for a list of dictionaries: the columns are the keys in the order of
  their first appearance, and a key that a dictionary lacks gives a missing value. The empty
  list gives a frame with no rows and no columns.
\<close>

definition DataFrame :: "pydict list \<Rightarrow> dataframe" where
  "DataFrame data =
     (let cols = rev (remdups (rev (concat (map (map fst) data))))
      in \<lparr>columns = cols,
          rows = map (\<lambda>d. map (\<lambda>c. case map_of d c of Some v \<Rightarrow> v | None \<Rightarrow> NaN) cols) data\<rparr>)"

fun index_of :: "string \<Rightarrow> string list \<Rightarrow> nat option" where
  "index_of c [] = None"
| "index_of c (x # xs) = (if x = c then Some 0 else map_option Suc (index_of c xs))"

definition cell_at :: "cell list \<Rightarrow> nat \<Rightarrow> cell" where
  "cell_at r j = (if j < length r then r ! j else NaN)"

text \<open>The positions of the columns named \<open>c\<close>.\<close>

definition positions :: "string \<Rightarrow> string list \<Rightarrow> nat list" where
  "positions c cs = filter (\<lambda>j. cs ! j = c) [0..<length cs]"

text \<open>
  \<^verbatim>\<open>df[c]\<close>: \<^verbatim>\<open>KeyError\<close> when no column has the name, the column as a series when exactly
  one has it, and the frame of the columns of that name when several have it.
\<close>

datatype selection = Series "cell list" | Columns dataframe

definition getitem :: "dataframe \<Rightarrow> string \<Rightarrow> py_error + selection" where
  "getitem df c =
     (case positions c (columns df) of
        [] \<Rightarrow> Inl KeyError
      | [j] \<Rightarrow> Inr (Series (map (\<lambda>r. cell_at r j) (rows df)))
      | js \<Rightarrow> Inr (Columns \<lparr>columns = map (\<lambda>j. c) js,
                               rows = map (\<lambda>r. map (cell_at r) js) (rows df)\<rparr>))"

text \<open>\<^verbatim>\<open>df[mask]\<close>: the rows at which the boolean mask holds.\<close>

definition select_rows :: "dataframe \<Rightarrow> bool list \<Rightarrow> dataframe" where
  "select_rows df bs = df\<lparr>rows := map fst (filter snd (zip (rows df) bs))\<rparr>"

text \<open>\<^verbatim>\<open>df.shape[0]\<close>.\<close>

definition shape0 :: "dataframe \<Rightarrow> nat" where
  "shape0 df = length (rows df)"

text \<open>\<^verbatim>\<open>df.at[i, c]\<close>: one cell, by row position and column name.\<close>

definition df_at :: "dataframe \<Rightarrow> nat \<Rightarrow> string \<Rightarrow> py_error + cell" where
  "df_at df i c =
     (case index_of c (columns df) of
        None \<Rightarrow> Inl KeyError
      | Some j \<Rightarrow> if i < length (rows df) then Inr (cell_at (rows df ! i) j) else Inl KeyError)"

section \<open>The session store\<close>

text \<open>\<^verbatim>\<open>st.session_state\<close>: a dictionary from keys to data frames.\<close>

type_synonym session_state = "string \<rightharpoonup> dataframe"

text \<open>Line 98: \<^verbatim>\<open>session_key = f"data_{selected_video}_{selected_role}"\<close>.\<close>

definition session_key :: "string \<Rightarrow> string \<Rightarrow> string" where
  "session_key video role = ''data_'' @ video @ ''_'' @ role"

text \<open>Lines 101 to 109: one dictionary for each segment.\<close>

definition initial_row :: "string \<Rightarrow> segment \<Rightarrow> pydict" where
  "initial_row role seg =
     [(''Start Time'', Str (Start_Time seg)),
      (''End Time'', Str (End_Time seg)),
      (''Role'', Str role),
      (''Emotion Label'', Str PENDING),
      (''Notes'', Str '''')]"

definition initial_data :: "string \<Rightarrow> segment list \<Rightarrow> pydict list" where
  "initial_data role segs = map (initial_row role) segs"

text \<open>The keys of every such dictionary, in the order of lines 104 to 108.\<close>

definition TABLE_COLUMNS :: "string list" where
  "TABLE_COLUMNS = [''Start Time'', ''End Time'', ''Role'', ''Emotion Label'', ''Notes'']"

text \<open>Lines 99 to 110: the table is built and stored only when the key is not in the store.\<close>

definition init_session_state ::
  "session_state \<Rightarrow> string \<Rightarrow> string \<Rightarrow> segment list \<Rightarrow> session_state" where
  "init_session_state st key role segs =
     (case st key of
        None \<Rightarrow> st(key \<mapsto> DataFrame (initial_data role segs))
      | Some _ \<Rightarrow> st)"

text \<open>Line 148: \<^verbatim>\<open>st.session_state[session_key] = edited_df\<close>.\<close>

definition commit_edits :: "session_state \<Rightarrow> string \<Rightarrow> dataframe \<Rightarrow> session_state" where
  "commit_edits st key edited_df = st(key \<mapsto> edited_df)"

section \<open>Completion and export\<close>

text \<open>
  Line 154:
  \<^verbatim>\<open>pending_count = edited_df[edited_df["Emotion Label"] == PENDING].shape[0]\<close>.
  When one column has the name, the comparison gives a boolean series and the rows at which
  it holds are kept. When several columns have the name, the comparison gives a boolean frame
  and \<^verbatim>\<open>edited_df[...]\<close> is \<^verbatim>\<open>edited_df.where(...)\<close>, which blanks cells and keeps every row
  when the boolean frame has the columns of \<^verbatim>\<open>edited_df\<close>, and raises \<^verbatim>\<open>ValueError\<close> (no
  reindexing on duplicate labels) when it has not.
\<close>

definition pending_count :: "dataframe \<Rightarrow> py_error + nat" where
  "pending_count df =
     (case getitem df ''Emotion Label'' of
        Inl err \<Rightarrow> Inl err
      | Inr (Series labels) \<Rightarrow>
          Inr (shape0 (select_rows df (map (\<lambda>c. c = Str PENDING) labels)))
      | Inr (Columns sub) \<Rightarrow>
          if columns sub = columns df then Inr (shape0 df) else Inl ValueError)"

text \<open>Lines 156 to 159: a warning that shows the count, or the success message.\<close>

datatype notice = Warning_pending nat | Success_all_marked

definition status_notice :: "nat \<Rightarrow> notice" where
  "status_notice n = (if 0 < n then Warning_pending n else Success_all_marked)"

text \<open>
  \<^verbatim>\<open>convert_df_to_excel\<close> hands the frame to \<^verbatim>\<open>df.to_excel\<close> with the sheet name
  \<^verbatim>\<open>Sheet1\<close> and returns the bytes written. The writer is code of pandas and openpyxl, so it is a
  parameter here: for a sheet name and a frame it gives the bytes or raises.
\<close>

type_synonym bytes = "char list"

type_synonym excel_writer = "string \<Rightarrow> dataframe \<Rightarrow> py_error + bytes"

definition convert_df_to_excel :: "excel_writer \<Rightarrow> dataframe \<Rightarrow> py_error + bytes" where
  "convert_df_to_excel to_excel df = to_excel ''Sheet1'' df"

subsection \<open>The sheet that pandas and openpyxl write\<close>

text \<open>
  The writer and the reader of the spreadsheet are code of pandas and openpyxl. What follows is
  modelled from their documentation: \<^verbatim>\<open>df.to_excel(writer, index=False, sheet_name=...)\<close>
  writes one sheet, the column names in its first row and one row for each row of the frame
  below it, in order. A cell of the sheet holds a text or nothing.
\<close>

datatype xcell = Text string | Blank















definition stored :: "cell \<Rightarrow> xcell" where
  "stored c = (case c of NaN \<Rightarrow> Blank | Str s \<Rightarrow> if s = [] then Blank else Text s)"

section \<open>One run of the script\<close>

record video_info =
  url :: string
  duration_sec :: int
  roles :: "string list"

definition VIDEO_DATA :: "(string \<times> video_info) list" where
  "VIDEO_DATA =
    [(''Marriage Story'',
        \<lparr>url = ''https://www.youtube.com/watch?v=FDFdroN7d0w'', duration_sec = 259,
         roles = [''Nicole'', ''Charlie'']\<rparr>),
     (''2 Broke Girls'',
        \<lparr>url = ''https://www.youtube.com/watch?v=Wfkaq1t7C9o'', duration_sec = 181,
         roles = [''Max'', ''Caroline'']\<rparr>)]"

text \<open>
  What the page supplies during one run: the two selections of the sidebar, the table that
  \<^verbatim>\<open>st.data_editor\<close> returns for the table it is shown, and the spreadsheet writer.
\<close>

record ui =
  selected_video :: string
  selected_role :: string
  data_editor :: "dataframe \<Rightarrow> dataframe"
  to_excel :: excel_writer

text \<open>What a run that does not raise shows below the editor.\<close>

record page =
  pending :: nat
  status :: notice
  file_name :: string
  excel_data :: bytes

text \<open>
  Lines 94 to 168. The store is returned as it is when the run ends or raises; an assignment
  to \<^verbatim>\<open>st.session_state\<close> made before an exception stays.
\<close>

definition run_script :: "ui \<Rightarrow> session_state \<Rightarrow> session_state \<times> (py_error + page)" where
  "run_script u st =
     (case map_of VIDEO_DATA (selected_video u) of
        None \<Rightarrow> (st, Inl KeyError)
      | Some info \<Rightarrow>
         (case generate_time_segments (duration_sec info) of
            Inl err \<Rightarrow> (st, Inl err)
          | Inr segs \<Rightarrow>
             (let key = session_key (selected_video u) (selected_role u);
                  st1 = init_session_state st key (selected_role u) segs
              in case st1 key of
                   None \<Rightarrow> (st1, Inl KeyError)
                 | Some table \<Rightarrow>
                    (let edited_df = data_editor u table;
                         st2 = commit_edits st1 key edited_df
                     in (st2,
                         case pending_count edited_df of
                           Inl err \<Rightarrow> Inl err
                         | Inr n \<Rightarrow>
                            (case convert_df_to_excel (to_excel u) edited_df of
                               Inl err \<Rightarrow> Inl err
                             | Inr data \<Rightarrow>
                                Inr \<lparr>pending = n, status = status_notice n,
                                     file_name = selected_role u @ ''.xlsx'',
                                     excel_data = data\<rparr>))))))"

section \<open>Facts about true division\<close>










section \<open>Facts about the segmenter\<close>

lemma total_segments_259: "total_segments 259 = Inr 18"
  by code_simp

lemma total_segments_181: "total_segments 181 = Inr 13"
  by code_simp

lemma length_py_range: "length (py_range n) = nat n"
  by (simp add: py_range_def)

lemma last_py_range: "0 < n \<Longrightarrow> last (py_range n) = n - 1"
  by (simp add: py_range_def last_map nat_diff_distrib' last_upt del: upt.simps)

lemma py_range_nonempty: "0 < n \<Longrightarrow> py_range n \<noteq> []"
  by (simp add: py_range_def)


lemma full_segments_sum:
  "int j * 15 \<le> D \<Longrightarrow>
     (\<Sum>i\<leftarrow>py_range (int j). seg_end D i - seg_start i) = int j * 15"
proof (induction j)
  case 0
  then show ?case by (simp add: py_range_def)
next
  case (Suc j)
  then have "(\<Sum>i\<leftarrow>py_range (int j). seg_end D i - seg_start i) = int j * 15"
    by simp
  moreover have "seg_end D (int j) - seg_start (int j) = 15"
    using Suc.prems by (simp add: seg_end_def seg_start_def SEGMENT_LENGTH_def algebra_simps)
  ultimately show ?case
    by (simp add: py_range_def nat_add_distrib)
qed







text \<open>
  In the model the bound is the largest one: for \<open>15 * 2 ^ 50 + 1\<close> the exact quotient
  \<open>2 ^ 50 + 1 / 15\<close> lies between two floats that are \<open>1 / 4\<close> apart and rounds down to
  \<open>2 ^ 50\<close>, so the count of line 37 is \<open>2 ^ 50\<close> and a list of that many segments would end
  one second early.
\<close>

lemma segmenter_float_rounding:
  "\<exists>segs. generate_time_segments 16888498602639361 = Inr segs
     \<and> length segs = 1125899906842624
     \<and> last segs = segment_at 16888498602639361 1125899906842623
     \<and> seg_end 16888498602639361 1125899906842623 = 16888498602639360
     \<and> End_Time (last segs) = ''4691249611844:16:00''
     \<and> hms 16888498602639361 = ''4691249611844:16:01''
     \<and> (\<Sum>i\<leftarrow>py_range (int (length segs)).
           seg_end 16888498602639361 i - seg_start i) = 16888498602639360"
proof -
  have n: "total_segments 16888498602639361 = Inr 1125899906842624"
    by code_simp
  define segs where
    "segs = map (segment_at 16888498602639361) (py_range 1125899906842624)"
  have g: "generate_time_segments 16888498602639361 = Inr segs"
    by (simp add: generate_time_segments_def n segs_def)
  have len: "length segs = 1125899906842624"
    by (simp add: segs_def length_py_range)
  have l: "last segs = segment_at 16888498602639361 1125899906842623"
    by (simp add: segs_def last_map py_range_nonempty last_py_range)
  have e: "seg_end 16888498602639361 1125899906842623 = 16888498602639360"
    by (simp add: seg_end_def SEGMENT_LENGTH_def)
  have h: "hms 16888498602639360 = ''4691249611844:16:00''"
    "hms 16888498602639361 = ''4691249611844:16:01''"
    by code_simp+
  have "int 1125899906842624 * 15 \<le> (16888498602639361::int)"
    by simp
  from full_segments_sum [OF this]
  have s: "(\<Sum>i\<leftarrow>py_range (int (length segs)).
             seg_end 16888498602639361 i - seg_start i) = 16888498602639360"
    by (simp add: len)
  show ?thesis
    using g len l e h s by (simp add: segment_at_def)
qed

text \<open>
  C9. With segment length 15, a duration of 259 seconds gives exactly 18 segments, the last
  one starting at second 255 and ending at second 259, with the labels \<^verbatim>\<open>00:04:15\<close> and
  \<^verbatim>\<open>00:04:19\<close>; a duration of 181 seconds gives exactly 13 segments, the last one from second
  180 to second 181.
\<close>

theorem segments_259_and_181:
  "(\<exists>segs. generate_time_segments 259 = Inr segs \<and> length segs = 18
      \<and> last segs = \<lparr>Start_Time = ''00:04:15'', End_Time = ''00:04:19'', seconds_start = 255\<rparr>
      \<and> last segs = segment_at 259 17 \<and> seg_start 17 = 255 \<and> seg_end 259 17 = 259)
   \<and> (\<exists>segs. generate_time_segments 181 = Inr segs \<and> length segs = 13
      \<and> last segs = segment_at 181 12 \<and> seg_start 12 = 180 \<and> seg_end 181 12 = 181)"
proof -
  have a: "generate_time_segments 259 = Inr (map (segment_at 259) (py_range 18))"
    by (simp add: generate_time_segments_def total_segments_259)
  have b: "generate_time_segments 181 = Inr (map (segment_at 181) (py_range 13))"
    by (simp add: generate_time_segments_def total_segments_181)
  have la: "last (map (segment_at 259) (py_range 18)) = segment_at 259 17"
    by (simp add: last_map py_range_nonempty last_py_range)
  have lb: "last (map (segment_at 181) (py_range 13)) = segment_at 181 12"
    by (simp add: last_map py_range_nonempty last_py_range)
  have sa: "segment_at 259 17
              = \<lparr>Start_Time = ''00:04:15'', End_Time = ''00:04:19'', seconds_start = 255\<rparr>"
    by code_simp
  have na: "seg_start 17 = 255 \<and> seg_end 259 17 = 259 \<and> seg_start 12 = 180 \<and> seg_end 181 12 = 181"
    by (simp add: seg_start_def seg_end_def SEGMENT_LENGTH_def)
  show ?thesis
    using a b la lb sa na by (simp add: length_py_range)
qed

section \<open>Facts about the session store\<close>

lemma generate_259: "generate_time_segments 259 = Inr (map (segment_at 259) (py_range 18))"
  by (simp add: generate_time_segments_def total_segments_259)

lemma generate_181: "generate_time_segments 181 = Inr (map (segment_at 181) (py_range 13))"
  by (simp add: generate_time_segments_def total_segments_181)

lemma catalog_cases:
  "map_of VIDEO_DATA v = Some info \<Longrightarrow> duration_sec info = 259 \<or> duration_sec info = 181"
  by (auto simp: VIDEO_DATA_def split: if_splits)

lemma catalog_segments:
  assumes "map_of VIDEO_DATA v = Some info"
  shows "\<exists>segs. generate_time_segments (duration_sec info) = Inr segs"
  using catalog_cases [OF assms] generate_259 generate_181 by auto

lemma run_script_frame:
  "k \<noteq> session_key (selected_video u) (selected_role u) \<Longrightarrow> fst (run_script u st) k = st k"
  by (simp add: run_script_def init_session_state_def commit_edits_def Let_def
           split: option.splits sum.splits)

text \<open>
  C10. The key is the concatenation of \<^verbatim>\<open>data_\<close>, the video, an underscore and the role, so
  it does not determine the pair: the distinct pairs \<^verbatim>\<open>("a_b", "c")\<close> and \<^verbatim>\<open>("a", "b_c")\<close> have
  the same key, and an access for the second pair after one for the first creates nothing: it
  finds the table of the first pair.
\<close>

theorem session_key_not_injective:
  "session_key ''a_b'' ''c'' = session_key ''a'' ''b_c''
   \<and> (''a_b'', ''c'') \<noteq> (''a'', ''b_c'')
   \<and> init_session_state (init_session_state st (session_key ''a_b'' ''c'') ''c'' segs)
        (session_key ''a'' ''b_c'') ''b_c'' segs'
      = init_session_state st (session_key ''a_b'' ''c'') ''c'' segs"
  by (simp add: session_key_def init_session_state_def split: option.splits)

text \<open>
  C3. When a table is already stored under a key, the access of lines 99 to 110 leaves the
  whole store as it is and finds that same table; the role and the segments given with the
  access are not used, and so a second access after any first access changes nothing.
\<close>

theorem existing_table_reused:
  assumes "st key = Some table"
  shows "init_session_state st key role segs = st
         \<and> init_session_state st key role segs key = Some table
         \<and> init_session_state (init_session_state st key role segs) key role' segs'
           = init_session_state st key role segs"
  using assms by (simp add: init_session_state_def)

theorem existing_table_reused_witness:
  "init_session_state [''data_2 Broke Girls_Max'' \<mapsto> \<lparr>columns = [''Notes''], rows = [[Str ''x'']]\<rparr>]
       ''data_2 Broke Girls_Max'' ''Caroline'' [segment_at 181 0, segment_at 181 1]
       ''data_2 Broke Girls_Max''
     = Some \<lparr>columns = [''Notes''], rows = [[Str ''x'']]\<rparr>"
  using existing_table_reused
    [of "[''data_2 Broke Girls_Max'' \<mapsto> \<lparr>columns = [''Notes''], rows = [[Str ''x'']]\<rparr>]"
        "''data_2 Broke Girls_Max''" "\<lparr>columns = [''Notes''], rows = [[Str ''x'']]\<rparr>"
        "''Caroline''" "[segment_at 181 0, segment_at 181 1]"]
  by simp

text \<open>
  C7. For a video and two distinct roles the two session keys differ, a commit under the key
  of one role leaves the entry under the key of the other role as it was, and so does a whole
  run of the script for the first role.
\<close>

theorem roles_have_independent_tables:
  assumes "r1 \<noteq> r2"
  shows "session_key v r1 \<noteq> session_key v r2
         \<and> commit_edits st (session_key v r1) edited_df (session_key v r2)
             = st (session_key v r2)
         \<and> fst (run_script \<lparr>selected_video = v, selected_role = r1, data_editor = ed,
                              to_excel = w\<rparr> st) (session_key v r2)
             = st (session_key v r2)"
proof -
  have k: "session_key v r2 \<noteq> session_key v r1"
    using assms by (simp add: session_key_def)
  have "fst (run_script \<lparr>selected_video = v, selected_role = r1, data_editor = ed,
                         to_excel = w\<rparr> st) (session_key v r2) = st (session_key v r2)"
    using k by (simp add: run_script_frame)
  then show ?thesis
    using k by (simp add: commit_edits_def)
qed

theorem roles_have_independent_tables_witness:
  "session_key ''Marriage Story'' ''Nicole'' \<noteq> session_key ''Marriage Story'' ''Charlie''
   \<and> commit_edits [session_key ''Marriage Story'' ''Charlie'' \<mapsto> \<lparr>columns = [''Notes''], rows = [[Str ''x'']]\<rparr>]
        (session_key ''Marriage Story'' ''Nicole'') \<lparr>columns = [''Notes''], rows = []\<rparr>
        (session_key ''Marriage Story'' ''Charlie'')
      = Some \<lparr>columns = [''Notes''], rows = [[Str ''x'']]\<rparr>"
  using roles_have_independent_tables
    [of "''Nicole''" "''Charlie''" "''Marriage Story''"
        "[session_key ''Marriage Story'' ''Charlie'' \<mapsto> \<lparr>columns = [''Notes''], rows = [[Str ''x'']]\<rparr>]"
        "\<lparr>columns = [''Notes''], rows = []\<rparr>"]
  by simp

text \<open>
  C2, as the claim states it, fails: a commit is the plain assignment of line 148. Here a
  stored table of one row is replaced by an edited table of two rows whose label is not in
  \<open>EMOTIONS\<close>; nothing is raised and the store holds the edited table afterwards.
\<close>

theorem commit_without_checks_counterexample:
  "commit_edits [''data_2 Broke Girls_Max'' \<mapsto>
        \<lparr>columns = [''Emotion Label''], rows = [[Str PENDING]]\<rparr>]
      ''data_2 Broke Girls_Max''
      \<lparr>columns = [''Emotion Label''], rows = [[Str ''Bored''], [Str ''Bored'']]\<rparr>
      ''data_2 Broke Girls_Max''
    = Some \<lparr>columns = [''Emotion Label''], rows = [[Str ''Bored''], [Str ''Bored'']]\<rparr>
   \<and> shape0 \<lparr>columns = [''Emotion Label''], rows = [[Str ''Bored''], [Str ''Bored'']]\<rparr>
       \<noteq> shape0 \<lparr>columns = [''Emotion Label''], rows = [[Str PENDING]]\<rparr>
   \<and> ''Bored'' \<notin> set EMOTIONS"
  by (simp add: commit_edits_def shape0_def EMOTIONS_def)

text \<open>
  C2, amended. A commit never fails, whatever the row count and the labels of the edited
  table: it replaces the table stored under the key by the edited table as a whole, so the
  store afterwards holds exactly the edited table under that key. A run of the script for a
  video of the catalogue always commits what the editor returned for the table it was shown,
  the stored one or, at the first access, the fresh one.
\<close>

theorem commit_replaces_table:
  assumes "map_of VIDEO_DATA (selected_video u) = Some info"
  shows "commit_edits st key edited_df key = Some edited_df
         \<and> (\<exists>segs. generate_time_segments (duration_sec info) = Inr segs
               \<and> fst (run_script u st) (session_key (selected_video u) (selected_role u))
                   = Some (data_editor u
                        (case st (session_key (selected_video u) (selected_role u)) of
                           Some table \<Rightarrow> table
                         | None \<Rightarrow> DataFrame (initial_data (selected_role u) segs))))"
proof -
  obtain segs where segs: "generate_time_segments (duration_sec info) = Inr segs"
    using catalog_segments [OF assms] by blast
  let ?key = "session_key (selected_video u) (selected_role u)"
  let ?table = "case st ?key of Some table \<Rightarrow> table
                | None \<Rightarrow> DataFrame (initial_data (selected_role u) segs)"
  have "init_session_state st ?key (selected_role u) segs ?key = Some ?table"
    by (simp add: init_session_state_def split: option.splits)
  then have "fst (run_script u st)
             = commit_edits (init_session_state st ?key (selected_role u) segs) ?key
                 (data_editor u ?table)"
    using assms segs by (simp add: run_script_def Let_def)
  then have "fst (run_script u st) ?key = Some (data_editor u ?table)"
    by (simp add: commit_edits_def)
  with segs show ?thesis
    by (simp add: commit_edits_def)
qed

theorem commit_replaces_table_witness:
  "map_of VIDEO_DATA ''2 Broke Girls''
     = Some \<lparr>url = ''https://www.youtube.com/watch?v=Wfkaq1t7C9o'', duration_sec = 181,
             roles = [''Max'', ''Caroline'']\<rparr>
   \<and> fst (run_script \<lparr>selected_video = ''2 Broke Girls'', selected_role = ''Max'',
                        data_editor = (\<lambda>table. \<lparr>columns = [''Emotion Label''],
                                                 rows = [[Str ''Bored''], [Str ''Bored'']]\<rparr>),
                        to_excel = (\<lambda>sheet_name df. Inl WriterError)\<rparr>
        [''data_2 Broke Girls_Max'' \<mapsto> \<lparr>columns = [''Emotion Label''], rows = [[Str PENDING]]\<rparr>])
       ''data_2 Broke Girls_Max''
     = Some \<lparr>columns = [''Emotion Label''], rows = [[Str ''Bored''], [Str ''Bored'']]\<rparr>"
proof -
  have v: "map_of VIDEO_DATA ''2 Broke Girls''
     = Some \<lparr>url = ''https://www.youtube.com/watch?v=Wfkaq1t7C9o'', duration_sec = 181,
             roles = [''Max'', ''Caroline'']\<rparr>"
    by (simp add: VIDEO_DATA_def)
  show ?thesis
    using v commit_replaces_table
      [of "\<lparr>selected_video = ''2 Broke Girls'', selected_role = ''Max'',
            data_editor = (\<lambda>table. \<lparr>columns = [''Emotion Label''],
                                     rows = [[Str ''Bored''], [Str ''Bored'']]\<rparr>),
            to_excel = (\<lambda>sheet_name df. Inl WriterError)\<rparr>"
          "\<lparr>url = ''https://www.youtube.com/watch?v=Wfkaq1t7C9o'', duration_sec = 181,
             roles = [''Max'', ''Caroline'']\<rparr>"
          "[''data_2 Broke Girls_Max'' \<mapsto> \<lparr>columns = [''Emotion Label''], rows = [[Str PENDING]]\<rparr>]"]
    by (simp add: session_key_def)
qed

section \<open>Facts about fresh tables\<close>

lemma keys_initial_row: "map fst (initial_row role seg) = TABLE_COLUMNS"
  by (simp add: initial_row_def TABLE_COLUMNS_def)

lemma keys_initial_data:
  "set (concat (map (map fst) (initial_data role segs))) \<subseteq> set TABLE_COLUMNS"
  by (auto simp: initial_data_def keys_initial_row)

lemma distinct_TABLE_COLUMNS: "distinct TABLE_COLUMNS"
  by (simp add: TABLE_COLUMNS_def)

lemma columns_fresh_table:
  assumes "segs \<noteq> []"
  shows "columns (DataFrame (initial_data role segs)) = TABLE_COLUMNS"
proof -
  obtain seg rest where segs: "segs = seg # rest"
    using assms by (cases segs) auto
  let ?rest = "concat (map (map fst) (initial_data role rest))"
  have "concat (map (map fst) (initial_data role segs)) = TABLE_COLUMNS @ ?rest"
    by (simp add: segs initial_data_def keys_initial_row)
  moreover have "remdups (rev ?rest @ rev TABLE_COLUMNS) = remdups (rev TABLE_COLUMNS)"
    using keys_initial_data [of role rest] by (intro remdups_append) simp
  ultimately have "remdups (rev (concat (map (map fst) (initial_data role segs))))
                   = rev TABLE_COLUMNS"
    using distinct_TABLE_COLUMNS by (simp add: distinct_remdups_id)
  then show ?thesis
    by (simp add: DataFrame_def)
qed

lemma rows_fresh_table:
  assumes "segs \<noteq> []"
  shows "rows (DataFrame (initial_data role segs))
         = map (\<lambda>seg. [Str (Start_Time seg), Str (End_Time seg), Str role, Str PENDING, Str ''''])
             segs"
proof -
  have "rows (DataFrame (initial_data role segs))
        = map (\<lambda>d. map (\<lambda>c. case map_of d c of Some v \<Rightarrow> v | None \<Rightarrow> NaN) TABLE_COLUMNS)
            (initial_data role segs)"
    using columns_fresh_table [OF assms, of role] by (simp add: DataFrame_def Let_def)
  then show ?thesis
    by (simp add: initial_data_def initial_row_def TABLE_COLUMNS_def)
qed

lemma empty_fresh_table: "DataFrame (initial_data role []) = \<lparr>columns = [], rows = []\<rparr>"
  by (simp add: DataFrame_def initial_data_def)

lemma shape0_fresh_table: "shape0 (DataFrame (initial_data role segs)) = length segs"
  by (simp add: shape0_def DataFrame_def initial_data_def Let_def)

text \<open>
  C4. For a key that is not in the store, the first access stores the frame built from the
  initial data: it has one row for each segment, in the order of the segments, and row \<open>i\<close>
  holds the start and end labels of segment \<open>i\<close>, the role given, the pending label and
  empty notes.
\<close>

theorem fresh_table_rows:
  assumes "st key = None"
  shows "\<exists>table. init_session_state st key role segs key = Some table
           \<and> table = DataFrame (initial_data role segs)
           \<and> shape0 table = length segs
           \<and> (\<forall>i<length segs.
                 df_at table i ''Start Time'' = Inr (Str (Start_Time (segs ! i)))
               \<and> df_at table i ''End Time'' = Inr (Str (End_Time (segs ! i)))
               \<and> df_at table i ''Role'' = Inr (Str role)
               \<and> df_at table i ''Emotion Label'' = Inr (Str PENDING)
               \<and> df_at table i ''Notes'' = Inr (Str ''''))"
proof -
  let ?t = "DataFrame (initial_data role segs)"
  have stored: "init_session_state st key role segs key = Some ?t"
    using assms by (simp add: init_session_state_def)
  have cells: "df_at ?t i ''Start Time'' = Inr (Str (Start_Time (segs ! i)))
             \<and> df_at ?t i ''End Time'' = Inr (Str (End_Time (segs ! i)))
             \<and> df_at ?t i ''Role'' = Inr (Str role)
             \<and> df_at ?t i ''Emotion Label'' = Inr (Str PENDING)
             \<and> df_at ?t i ''Notes'' = Inr (Str '''')" if "i < length segs" for i
  proof -
    from that have ne: "segs \<noteq> []" by auto
    show ?thesis
      using that
      by (simp add: df_at_def columns_fresh_table [OF ne] rows_fresh_table [OF ne]
            TABLE_COLUMNS_def cell_at_def)
  qed
  show ?thesis
    using stored cells by (simp add: shape0_fresh_table)
qed

theorem fresh_table_rows_witness:
  "Map.empty ''data_2 Broke Girls_Max'' = (None :: dataframe option)
   \<and> init_session_state Map.empty ''data_2 Broke Girls_Max'' ''Max'' [segment_at 181 12]
        ''data_2 Broke Girls_Max''
      = Some (DataFrame (initial_data ''Max'' [segment_at 181 12]))
   \<and> df_at (DataFrame (initial_data ''Max'' [segment_at 181 12])) 0 ''Emotion Label''
      = Inr (Str PENDING)
   \<and> df_at (DataFrame (initial_data ''Max'' [segment_at 181 12])) 0 ''Role'' = Inr (Str ''Max'')"
  using fresh_table_rows [of Map.empty "''data_2 Broke Girls_Max''" "''Max''" "[segment_at 181 12]"]
  by simp

section \<open>Facts about completion\<close>

lemma masked_rows: "map fst (filter snd (zip xs (map p xs))) = filter p xs"
  by (induction xs) auto

lemma positions_TABLE_COLUMNS: "positions ''Emotion Label'' TABLE_COLUMNS = [3]"
  by (simp add: positions_def TABLE_COLUMNS_def upt_rec)

lemma positions_empty: "c \<notin> set cs \<Longrightarrow> positions c cs = []"
  by (auto simp: positions_def filter_empty_conv)

lemma pending_count_rows:
  assumes "positions ''Emotion Label'' (columns df) = [j]"
  shows "pending_count df = Inr (length (filter (\<lambda>r. cell_at r j = Str PENDING) (rows df)))"
proof -
  have "map fst (filter snd (zip (rows df) (map (\<lambda>r. cell_at r j = Str PENDING) (rows df))))
        = filter (\<lambda>r. cell_at r j = Str PENDING) (rows df)"
    by (rule masked_rows)
  then show ?thesis
    using assms by (simp add: pending_count_def getitem_def select_rows_def shape0_def comp_def)
qed

lemma pending_count_missing_column:
  "''Emotion Label'' \<notin> set (columns df) \<Longrightarrow> pending_count df = Inl KeyError"
  by (simp add: pending_count_def getitem_def positions_empty)

lemma pending_count_fresh_table:
  assumes "segs \<noteq> []"
  shows "pending_count (DataFrame (initial_data role segs)) = Inr (length segs)"
proof -
  have "positions ''Emotion Label'' (columns (DataFrame (initial_data role segs))) = [3]"
    by (simp add: columns_fresh_table [OF assms] positions_TABLE_COLUMNS)
  then show ?thesis
    by (simp add: pending_count_rows rows_fresh_table [OF assms] cell_at_def filter_map comp_def)
qed

lemma pending_count_all_marked:
  assumes "positions ''Emotion Label'' (columns df) = [j]"
    and "\<forall>r \<in> set (rows df). cell_at r j \<noteq> Str PENDING"
  shows "pending_count df = Inr 0"
  using assms by (simp add: pending_count_rows filter_empty_conv)

lemma pending_count_catalogue:
  assumes "map_of VIDEO_DATA v = Some info"
  shows "\<exists>segs. generate_time_segments (duration_sec info) = Inr segs \<and> segs \<noteq> []
           \<and> pending_count (DataFrame (initial_data role segs)) = Inr (length segs)"
proof -
  consider "duration_sec info = 259" | "duration_sec info = 181"
    using catalog_cases [OF assms] by blast
  then show ?thesis
  proof cases
    case 1
    have "map (segment_at 259) (py_range 18) \<noteq> []"
      by (simp add: py_range_nonempty)
    then show ?thesis
      using 1 generate_259 pending_count_fresh_table by simp
  next
    case 2
    have "map (segment_at 181) (py_range 13) \<noteq> []"
      by (simp add: py_range_nonempty)
    then show ?thesis
      using 2 generate_181 pending_count_fresh_table by simp
  qed
qed

lemma status_notice_complete: "status_notice n = Success_all_marked \<longleftrightarrow> n = 0"
  by (simp add: status_notice_def)

lemma status_notice_incomplete: "0 < n \<Longrightarrow> status_notice n = Warning_pending n"
  by (simp add: status_notice_def)

text \<open>
  C5. On a frame with one column named \<^verbatim>\<open>Emotion Label\<close>, at position \<open>j\<close>, the completion
  count is the number of rows whose cell in that column is the pending label. On a freshly
  created table of at least one segment, and so on the fresh table of every video of the
  catalogue, it is the number of segments. After the commit of a table none of whose labels
  is the pending label it is 0. The status shown is the success message exactly when the
  count is 0, and otherwise the warning that carries the count.
\<close>

theorem pending_count_counts_pending:
  assumes "positions ''Emotion Label'' (columns df) = [j]"
  shows "pending_count df = Inr (length (filter (\<lambda>r. cell_at r j = Str PENDING) (rows df)))
       \<and> (segs \<noteq> [] \<longrightarrow> pending_count (DataFrame (initial_data role segs)) = Inr (length segs))
       \<and> (map_of VIDEO_DATA v = Some info \<longrightarrow>
            (\<exists>segs. generate_time_segments (duration_sec info) = Inr segs
               \<and> pending_count (DataFrame (initial_data role segs)) = Inr (length segs)))
       \<and> ((\<forall>r \<in> set (rows df). cell_at r j \<noteq> Str PENDING) \<longrightarrow>
            (\<exists>table. commit_edits st key df key = Some table \<and> pending_count table = Inr 0))
       \<and> (status_notice n = Success_all_marked \<longleftrightarrow> n = 0)
       \<and> (0 < n \<longrightarrow> status_notice n = Warning_pending n)"
proof -
  have a: "pending_count df = Inr (length (filter (\<lambda>r. cell_at r j = Str PENDING) (rows df)))"
    using assms by (rule pending_count_rows)
  have b: "pending_count (DataFrame (initial_data role segs)) = Inr (length segs)" if "segs \<noteq> []"
    using that by (rule pending_count_fresh_table)
  have c: "\<exists>segs. generate_time_segments (duration_sec info) = Inr segs
             \<and> pending_count (DataFrame (initial_data role segs)) = Inr (length segs)"
    if "map_of VIDEO_DATA v = Some info"
    using pending_count_catalogue [OF that, of role] by blast
  have d: "\<exists>table. commit_edits st key df key = Some table \<and> pending_count table = Inr 0"
    if "\<forall>r \<in> set (rows df). cell_at r j \<noteq> Str PENDING"
    using pending_count_all_marked [OF assms that] by (simp add: commit_edits_def)
  show ?thesis
    using a b c d status_notice_complete status_notice_incomplete by blast
qed

theorem pending_count_counts_pending_witness:
  "positions ''Emotion Label'' [''Role'', ''Emotion Label'', ''Notes''] = [1]
   \<and> pending_count \<lparr>columns = [''Role'', ''Emotion Label'', ''Notes''],
                     rows = [[Str ''Max'', Str PENDING, Str ''''],
                             [Str ''Max'', Str ''Bored'', NaN],
                             [Str ''Max'', Str PENDING, Str ''loud'']]\<rparr> = Inr 2
   \<and> status_notice 2 = Warning_pending 2"
proof -
  let ?df = "\<lparr>columns = [''Role'', ''Emotion Label'', ''Notes''],
              rows = [[Str ''Max'', Str PENDING, Str ''''],
                      [Str ''Max'', Str ''Bored'', NaN],
                      [Str ''Max'', Str PENDING, Str ''loud'']]\<rparr>"
  have p: "positions ''Emotion Label'' (columns ?df) = [1]"
    by (simp add: positions_def upt_rec)
  have "PENDING \<noteq> ''Bored''"
    by (simp add: PENDING_def)
  then show ?thesis
    using p pending_count_counts_pending [OF p, of "[]" "''Max''" "''x''"
        "\<lparr>url = [], duration_sec = 0, roles = []\<rparr>" Map.empty "''k''" 2]
    by (simp add: cell_at_def)
qed

text \<open>
  With no segments the initial data is the empty list, the frame built from it has no
  columns, and the count raises \<^verbatim>\<open>KeyError\<close>. No video of the catalogue has zero segments
  (\<open>pending_count_catalogue\<close>).
\<close>

lemma pending_count_empty_fresh_table:
  "pending_count (DataFrame (initial_data role [])) = Inl KeyError
   \<and> shape0 (DataFrame (initial_data role [])) = 0"
  by (simp add: empty_fresh_table pending_count_def getitem_def positions_def shape0_def)

section \<open>Facts about export\<close>













text \<open>
  C8, as the claim states it, fails: \<^verbatim>\<open>convert_df_to_excel\<close> has no check of the row count and
  raises nothing of its own. A frame of zero rows goes to the writer like any other, and with
  a writer that returns bytes for it the export returns those bytes.
\<close>

theorem export_of_empty_table_counterexample:
  "convert_df_to_excel (\<lambda>sheet_name df. Inr ''PK'') \<lparr>columns = [], rows = []\<rparr>
     = Inr ''PK''
   \<and> shape0 \<lparr>columns = [], rows = []\<rparr> = 0"
  by (simp add: convert_df_to_excel_def shape0_def)

text \<open>
  C8, amended. The export of any frame, empty or not, is what the spreadsheet writer gives
  for the sheet name \<^verbatim>\<open>Sheet1\<close> and that frame, bytes or the writer's exception. The store
  after a run does not depend on the writer, so an export that fails leaves the stored tables
  as an export that succeeds does.
\<close>

theorem export_is_unguarded:
  "convert_df_to_excel w df = w ''Sheet1'' df
   \<and> fst (run_script (u\<lparr>to_excel := w\<rparr>) st) = fst (run_script u st)"
  by (simp add: convert_df_to_excel_def run_script_def Let_def split: option.splits sum.splits)

end
